theory Spec2Isabelle
  imports Main "HOL-Library.Sublist" "HOL-Library.Word"
begin

section \<open>JavaScript strings\<close>

text \<open>
  A JavaScript string is a sequence of UTF-16 code units. The string methods used by the
  bot (\<^verbatim>\<open>replace\<close> with a string pattern, \<^verbatim>\<open>includes\<close>, \<^verbatim>\<open>endsWith\<close>, \<^verbatim>\<open>trim\<close>)
  all work on code units, so a string is modelled as a list of 16-bit words. \<open>lit\<close> turns an
  ASCII literal of the source into such a list; the few non-ASCII letters of the source's
  Spanish texts are written by their code unit.
\<close>

type_synonym jsstring = "16 word list"

definition lit :: "string \<Rightarrow> jsstring" where
  "lit s = map of_char s"

text \<open>
  \<^verbatim>\<open>s.replace(pat, rep)\<close> with a string pattern replaces the first occurrence only
  (the leftmost one); with an empty pattern it inserts at the front. Every call of the source
  passes the replacement \<^verbatim>\<open>''\<close>, which has none of the special dollar patterns.
\<close>

fun replace :: "jsstring \<Rightarrow> jsstring \<Rightarrow> jsstring \<Rightarrow> jsstring" where
  "replace [] pat rep = (if pat = [] then rep else [])"
| "replace (c # cs) pat rep =
     (if prefix pat (c # cs) then rep @ drop (length pat) (c # cs)
      else c # replace cs pat rep)"

text \<open>\<^verbatim>\<open>s.includes(pat)\<close>: the pattern occurs at some position.\<close>

fun includes_js :: "jsstring \<Rightarrow> jsstring \<Rightarrow> bool" where
  "includes_js [] pat = (pat = [])"
| "includes_js (c # cs) pat = (prefix pat (c # cs) \<or> includes_js cs pat)"

text \<open>\<^verbatim>\<open>s.endsWith(pat)\<close>.\<close>

definition endsWith :: "jsstring \<Rightarrow> jsstring \<Rightarrow> bool" where
  "endsWith s pat = suffix pat s"

text \<open>
  \<^verbatim>\<open>s.trim()\<close> removes the ECMAScript WhiteSpace and LineTerminator code units from both
  ends: TAB, LF, VT, FF, CR, SP, NBSP, U+1680, U+2000..U+200A, U+2028, U+2029, U+202F,
  U+205F, U+3000 and U+FEFF.
\<close>

definition isWhiteSpace :: "16 word \<Rightarrow> bool" where
  "isWhiteSpace c =
     (c = 9 \<or> c = 10 \<or> c = 11 \<or> c = 12 \<or> c = 13 \<or> c = 32 \<or> c = 160 \<or> c = 5760
      \<or> (8192 \<le> c \<and> c \<le> 8202) \<or> c = 8232 \<or> c = 8233 \<or> c = 8239 \<or> c = 8287
      \<or> c = 12288 \<or> c = 65279)"

definition trim :: "jsstring \<Rightarrow> jsstring" where
  "trim s = rev (dropWhile isWhiteSpace (rev (dropWhile isWhiteSpace s)))"

text \<open>
  Truthiness of an optional string (\<^verbatim>\<open>if (x)\<close>, \<^verbatim>\<open>x || y\<close>): \<^verbatim>\<open>null\<close>,
  \<^verbatim>\<open>undefined\<close> (both \<open>None\<close>) and the empty string are falsy.
\<close>

definition truthy :: "jsstring option \<Rightarrow> bool" where
  "truthy x = (case x of None \<Rightarrow> False | Some s \<Rightarrow> s \<noteq> [])"

section \<open>Identity normalisation\<close>

text \<open>
  \<^verbatim>\<open>function extractUserId(remoteJid)\<close>: the empty string for a falsy argument, otherwise
  the three chained \<^verbatim>\<open>replace\<close> calls, each removing the first occurrence of its suffix
  text wherever it stands.
\<close>

definition extractUserId :: "jsstring option \<Rightarrow> jsstring" where
  "extractUserId remoteJid =
     (if \<not> truthy remoteJid then []
      else replace (replace (replace (the remoteJid) (lit ''@s.whatsapp.net'') [])
                      (lit ''@lid'') [])
             (lit ''@g.us'') [])"

section \<open>Data of the bot and of its surroundings\<close>

text \<open>
  The values of \<^verbatim>\<open>this.connectionStatus\<close> (\<^verbatim>\<open>'disconnected'\<close>, \<^verbatim>\<open>'connecting'\<close>,
  \<^verbatim>\<open>'connected'\<close>), the roles of a chat message, the first argument of \<^verbatim>\<open>logger.log\<close>
  (\<^verbatim>\<open>'cliente'\<close>, \<^verbatim>\<open>'bot'\<close>, \<^verbatim>\<open>'SYSTEM'\<close>, \<^verbatim>\<open>'ERROR'\<close>) and the status words handed
  to \<^verbatim>\<open>logger.updateMessageStatus\<close> are string constants in the source; each family is
  an enumeration here.
\<close>

datatype connection_status = Disconnected | Connecting | Connected

datatype role = System | User | Assistant

type_synonym chat_message = "role \<times> jsstring"

datatype log_kind = Cliente | Bot | SYSTEM | ERROR

datatype delivery = Sent | Delivered | Read

datatype mode = AI | Human | Support

text \<open>A thrown \<^verbatim>\<open>Error\<close> object; \<open>error_message\<close> is its \<^verbatim>\<open>message\<close>.\<close>

datatype jserror = Error (error_message: jsstring)

text \<open>How an async function ends: its promise resolves, or an exception escapes it.\<close>

datatype outcome = Resolved | Rejected

text \<open>One call \<^verbatim>\<open>logger.log(kind, text, userId, userName, isGroup, null, null, messageId)\<close>;
  an argument that is left out is \<open>None\<close>.\<close>

record log_entry =
  le_kind :: log_kind
  le_text :: jsstring
  le_userId :: "jsstring option"
  le_userName :: "jsstring option"
  le_isGroup :: "bool option"
  le_messageId :: "jsstring option"

text \<open>The fields of \<^verbatim>\<open>class WhatsAppBot\<close>. \<open>sock\<close> says whether a socket has been made.\<close>

record bot =
  sock :: bool
  currentQR :: "jsstring option"
  connectionStatus :: connection_status
  reconnectAttempts :: int
  maxReconnectAttempts :: int
  isReconnecting :: bool

text \<open>
  The bot together with everything its methods act on.

  \<^item> \<open>timers\<close>: the delays (ms) of the pending \<^verbatim>\<open>setTimeout(() => this.start(), d)\<close>
    callbacks. The source keeps no handle of any of them.
  \<^item> \<open>creds\<close>: the directory \<^verbatim>\<open>auth_baileys\<close> holds persisted credentials.
  \<^item> \<open>remoteLogout\<close>: \<^verbatim>\<open>sock.logout()\<close> has completed.

  Modelled from the spec: the services \<^verbatim>\<open>logger\<close>, \<^verbatim>\<open>humanModeManager\<close>,
  \<^verbatim>\<open>sessionManager\<close>, \<^verbatim>\<open>followUpService\<close> and \<^verbatim>\<open>systemConfigService\<close> are required by
  the source but are not part of it. Their state is what the spec's collaborator contracts
  name: the append-only audit log (\<open>logs\<close>), the delivery status per message id
  (\<open>statuses\<close>), the tri-state mode per identity (\<open>modes\<close>), the conversation history and
  session mode per identity and chat (\<open>sessions\<close>, \<open>sessionModes\<close>), the identities with a
  pending follow-up (\<open>followUps\<close>), the recorded response analyses (\<open>analyses\<close>), the two
  audience switches, and how often the two dependent timers were armed. \<open>aiCalls\<close> and
  \<open>sent\<close> record the calls of \<^verbatim>\<open>aiService.generateResponse\<close> and the sends the transport
  accepted. These services are taken to return normally; the calls whose exceptions the
  source handles one by one (the AI's answer, the transport's send, the group's
  metadata, the socket's logout) are parameters, see \<open>deps\<close>.
\<close>

record world = bot +
  timers :: "nat list"
  creds :: bool
  remoteLogout :: bool
  logs :: "log_entry list"
  statuses :: "jsstring \<Rightarrow> delivery option"
  modes :: "jsstring \<Rightarrow> mode"
  sessions :: "jsstring \<times> jsstring \<Rightarrow> chat_message list"
  sessionModes :: "jsstring \<times> jsstring \<Rightarrow> mode option"
  followUps :: "jsstring set"
  analyses :: "(jsstring \<times> jsstring \<times> chat_message list) list"
  groupsAIEnabled :: bool
  individualAIEnabled :: bool
  aiCalls :: "chat_message list list"
  sent :: "(jsstring \<times> jsstring) list"
  cleanupTimers :: nat
  followUpTimers :: nat

text \<open>
  What the bot cannot decide itself, taken as parameters: the library constant
  \<^verbatim>\<open>DisconnectReason.loggedOut\<close>, the answer (or exception) of the AI service for a
  history, of the transport for a send (given what was sent before) and for a group's
  metadata (its \<^verbatim>\<open>subject\<close>), the prompt of \<^verbatim>\<open>promptLoader.getPrompt\<close>, and whether
  \<^verbatim>\<open>sock.logout()\<close> throws.
\<close>

record deps =
  loggedOut :: int
  generateResponse :: "chat_message list \<Rightarrow> jserror + jsstring"
  sendMessage :: "(jsstring \<times> jsstring) list \<Rightarrow> jsstring \<Rightarrow> jsstring \<Rightarrow> jserror + jsstring option"
  groupMetadata :: "jsstring \<Rightarrow> jserror + jsstring option"
  getPrompt :: "bool \<Rightarrow> jsstring"
  sockLogout :: "jserror option"

text \<open>The events of the transport, as far as the handlers read them.\<close>

datatype connection = Close | Open | OtherConnection

record connection_update =
  connection :: "connection option"
  statusCode :: "int option"
  qr :: "jsstring option"

record status_update =
  key_id :: "jsstring option"
  key_remoteJid :: "jsstring option"
  update_status :: "int option"

record message_content =
  conversation :: "jsstring option"
  extendedText :: "jsstring option"

record wa_message =
  fromMe :: bool
  remoteJid :: jsstring
  senderPn :: "jsstring option"
  pushName :: "jsstring option"
  message :: "message_content option"

text \<open>\<^verbatim>\<open>constructor()\<close>.\<close>

definition constructor :: bot where
  "constructor =
     \<lparr>sock = False, currentQR = None, connectionStatus = Disconnected,
      reconnectAttempts = 0, maxReconnectAttempts = 3, isReconnecting = False\<rparr>"

text \<open>A fresh bot in quiet surroundings: nothing stored, both audience switches on.\<close>

definition newWorld :: world where
  "newWorld =
     bot.extend constructor
       (world.fields [] False False [] (\<lambda>_. None) (\<lambda>_. AI) (\<lambda>_. []) (\<lambda>_. None) {} []
          True True [] [] 0 0)"

section \<open>The collaborators\<close>

text \<open>Modelled from the spec: \<^verbatim>\<open>logger.log\<close>, an append to the audit log.\<close>

definition logger_log ::
  "world \<Rightarrow> log_kind \<Rightarrow> jsstring \<Rightarrow> jsstring option \<Rightarrow> jsstring option \<Rightarrow> bool option
     \<Rightarrow> jsstring option \<Rightarrow> world" where
  "logger_log w k t u n g m =
     w\<lparr>logs := logs w @
          [\<lparr>le_kind = k, le_text = t, le_userId = u, le_userName = n, le_isGroup = g,
            le_messageId = m\<rparr>]\<rparr>"

text \<open>
  Modelled from the spec: \<^verbatim>\<open>logger.updateMessageStatus\<close>, the StatusTracker's store. The
  ranks are sent = 1, delivered = 2, read = 3; no status is stored for a message id until
  its first update; an update is applied only if its rank is at least the stored one.
\<close>

definition rank :: "delivery \<Rightarrow> nat" where
  "rank d = (case d of Sent \<Rightarrow> 1 | Delivered \<Rightarrow> 2 | Read \<Rightarrow> 3)"

definition storedRank :: "delivery option \<Rightarrow> nat" where
  "storedRank s = (case s of None \<Rightarrow> 0 | Some d \<Rightarrow> rank d)"

definition updateMessageStatus :: "world \<Rightarrow> jsstring \<Rightarrow> delivery \<Rightarrow> world" where
  "updateMessageStatus w messageId status =
     (if storedRank (statuses w messageId) \<le> rank status
      then w\<lparr>statuses := (statuses w)(messageId := Some status)\<rparr>
      else w)"

text \<open>Modelled from the spec: the ModeStore behind \<^verbatim>\<open>humanModeManager\<close>.\<close>

definition isHumanMode :: "world \<Rightarrow> jsstring \<Rightarrow> bool" where
  "isHumanMode w userId = (modes w userId = Human)"

definition isSupportMode :: "world \<Rightarrow> jsstring \<Rightarrow> bool" where
  "isSupportMode w userId = (modes w userId = Support)"

definition setMode :: "world \<Rightarrow> jsstring \<Rightarrow> mode \<Rightarrow> world" where
  "setMode w userId m = w\<lparr>modes := (modes w)(userId := m)\<rparr>"

text \<open>Modelled from the spec: the ConversationStore behind \<^verbatim>\<open>sessionManager\<close>.\<close>

definition addMessage :: "world \<Rightarrow> jsstring \<Rightarrow> role \<Rightarrow> jsstring \<Rightarrow> jsstring \<Rightarrow> world" where
  "addMessage w userId r content chatId =
     w\<lparr>sessions := (sessions w)((userId, chatId) := sessions w (userId, chatId) @ [(r, content)])\<rparr>"

definition getMessages :: "world \<Rightarrow> jsstring \<Rightarrow> jsstring \<Rightarrow> chat_message list" where
  "getMessages w userId chatId = sessions w (userId, chatId)"

definition updateSessionMode :: "world \<Rightarrow> jsstring \<Rightarrow> jsstring \<Rightarrow> mode \<Rightarrow> world" where
  "updateSessionMode w userId chatId m =
     w\<lparr>sessionModes := (sessionModes w)((userId, chatId) := Some m)\<rparr>"

text \<open>Modelled from the spec: the FollowUpScheduler behind \<^verbatim>\<open>followUpService\<close>.\<close>

definition hasActiveFollowUp :: "world \<Rightarrow> jsstring \<Rightarrow> bool" where
  "hasActiveFollowUp w userId = (userId \<in> followUps w)"

definition cancelFollowUp :: "world \<Rightarrow> jsstring \<Rightarrow> world" where
  "cancelFollowUp w userId = w\<lparr>followUps := followUps w - {userId}\<rparr>"

definition analyzeUserResponse ::
  "world \<Rightarrow> jsstring \<Rightarrow> jsstring \<Rightarrow> chat_message list \<Rightarrow> world" where
  "analyzeUserResponse w userId t history = w\<lparr>analyses := analyses w @ [(userId, t, history)]\<rparr>"

section \<open>The connection supervisor\<close>

text \<open>
  \<^verbatim>\<open>clearSession()\<close>: \<^verbatim>\<open>fsPromises.rm(authPath, {recursive: true, force: true})\<close>. The
  file system is taken to do what it is asked; the \<^verbatim>\<open>catch\<close> of the source only prints
  to the console, which is not modelled.
\<close>

definition clearSession :: "world \<Rightarrow> world" where
  "clearSession w = w\<lparr>creds := False\<rparr>"

text \<open>
  \<^verbatim>\<open>start()\<close>. The parameter says how the body goes: \<^verbatim>\<open>config.validateApiKey()\<close>, which
  stands before the \<^verbatim>\<open>try\<close>, throws; or a step inside the \<^verbatim>\<open>try\<close> (restoring the
  credentials, fetching the version, making the socket) throws and the \<^verbatim>\<open>catch\<close> runs;
  or the socket is made and the handlers are registered.
\<close>

datatype start_result = Started | ValidateThrows | SetupThrows

definition start :: "world \<Rightarrow> start_result \<Rightarrow> outcome \<times> world" where
  "start w r =
     (if isReconnecting w then (Resolved, w)
      else
        let w1 = w\<lparr>isReconnecting := True\<rparr> in
        case r of
          ValidateThrows \<Rightarrow> (Rejected, w1)
        | Started \<Rightarrow> (Resolved, w1\<lparr>sock := True\<rparr>)
        | SetupThrows \<Rightarrow>
            let w2 = w1\<lparr>isReconnecting := False\<rparr> in
            if reconnectAttempts w2 < maxReconnectAttempts w2
            then (Resolved,
                  w2\<lparr>reconnectAttempts := reconnectAttempts w2 + 1,
                     timers := timers w2 @ [5000]\<rparr>)
            else (Resolved, w2))"

text \<open>
  The handler of \<^verbatim>\<open>connection.update\<close>. It calls \<^verbatim>\<open>clearSession()\<close> without awaiting
  it; the removal is taken to have happened when the handler returns.
\<close>

definition on_connection_update :: "deps \<Rightarrow> world \<Rightarrow> connection_update \<Rightarrow> world" where
  "on_connection_update d w0 u =
     (let w = (if truthy (qr u) then w0\<lparr>currentQR := qr u, connectionStatus := Connecting\<rparr>
               else w0)
      in
      if connection u = Some Close then
        let w1 = w\<lparr>connectionStatus := Disconnected\<rparr>;
            shouldReconnect = (statusCode u \<noteq> Some (loggedOut d))
        in
        if statusCode u = Some 405 \<or> statusCode u = Some 401 \<or> statusCode u = Some 403 then
          let w2 = w1\<lparr>reconnectAttempts := reconnectAttempts w1 + 1\<rparr> in
          if maxReconnectAttempts w2 < reconnectAttempts w2
          then w2\<lparr>isReconnecting := False\<rparr>
          else
            let w3 = clearSession w2;
                w4 = w3\<lparr>isReconnecting := False\<rparr>
            in w4\<lparr>timers := timers w4 @ [5000]\<rparr>
        else if shouldReconnect \<and> statusCode u \<noteq> Some (loggedOut d) then
          let w2 = w1\<lparr>reconnectAttempts := 0, isReconnecting := False\<rparr>
          in w2\<lparr>timers := timers w2 @ [5000]\<rparr>
        else w1\<lparr>isReconnecting := False\<rparr>
      else if connection u = Some Open then
        let w1 = w\<lparr>currentQR := None, connectionStatus := Connected,
                   reconnectAttempts := 0, isReconnecting := False\<rparr>;
            w2 = logger_log w1 SYSTEM (lit ''Bot iniciado correctamente con Baileys'')
                   None None None None
        in w2\<lparr>cleanupTimers := cleanupTimers w2 + 1, followUpTimers := followUpTimers w2 + 1\<rparr>
      else w)"

text \<open>
  \<^verbatim>\<open>logout()\<close>. An exception of \<^verbatim>\<open>sock.logout()\<close> is caught by the inner \<^verbatim>\<open>try\<close>;
  nothing else in the body throws, so the method returns \<^verbatim>\<open>true\<close>.
\<close>

definition logout :: "deps \<Rightarrow> world \<Rightarrow> bool \<times> world" where
  "logout d w =
     (let w1 = w\<lparr>connectionStatus := Disconnected, currentQR := None,
                 reconnectAttempts := 0, isReconnecting := False\<rparr>;
          w2 = (if sock w1
                then (case sockLogout d of None \<Rightarrow> w1\<lparr>remoteLogout := True\<rparr> | Some err \<Rightarrow> w1)
                else w1);
          w3 = clearSession w2
      in (True, w3\<lparr>timers := timers w3 @ [2000]\<rparr>))"

section \<open>Delivery status\<close>

text \<open>
  The handler of \<^verbatim>\<open>messages.update\<close>. \<open>statusOf\<close> is the chain of comparisons on
  \<^verbatim>\<open>update.update.status\<close>: 4 is read, 2 delivered, 1 sent, anything else leaves
  \<^verbatim>\<open>status\<close> at \<^verbatim>\<open>null\<close>.
\<close>

definition statusOf :: "int option \<Rightarrow> delivery option" where
  "statusOf s =
     (if s = Some 4 then Some Read
      else if s = Some 2 then Some Delivered
      else if s = Some 1 then Some Sent
      else None)"

definition applyStatusUpdate :: "world \<Rightarrow> status_update \<Rightarrow> world" where
  "applyStatusUpdate w u =
     (case statusOf (update_status u) of
        None \<Rightarrow> w
      | Some status \<Rightarrow>
          (if truthy (key_id u) then updateMessageStatus w (the (key_id u)) status else w))"

fun on_messages_update :: "world \<Rightarrow> status_update list \<Rightarrow> world" where
  "on_messages_update w [] = w"
| "on_messages_update w (u # us) = on_messages_update (applyStatusUpdate w u) us"

section \<open>The message dispatcher\<close>

text \<open>The marker of a support hand-off, and the two texts of \<^verbatim>\<open>handleError\<close>.\<close>

definition marker :: jsstring where
  "marker = lit ''{{ACTIVAR_SOPORTE}}''"

definition apology :: jsstring where
  "apology = lit ''Lo siento, ocurri'' @ [243] @ lit '' un error. Int'' @ [233]
               @ lit ''ntalo de nuevo.''"

definition configNotice :: jsstring where
  "configNotice = lit ''Error de configuraci'' @ [243]
                    @ lit ''n del bot. Por favor, contacta al administrador.''"

text \<open>\<^verbatim>\<open>x || d\<close> for an optional string \<open>x\<close>.\<close>

definition orElse :: "jsstring option \<Rightarrow> jsstring \<Rightarrow> jsstring" where
  "orElse x d = (if truthy x then the x else d)"

text \<open>The messages handed to the AI: the system prompt, then the stored history.\<close>

definition prepareMessages :: "deps \<Rightarrow> world \<Rightarrow> jsstring \<Rightarrow> jsstring \<Rightarrow> chat_message list" where
  "prepareMessages d w userId chatId =
     (let isGroup = endsWith chatId (lit ''@g.us'');
          systemPrompt = getPrompt d isGroup
      in (System, systemPrompt) # getMessages w userId chatId)"

text \<open>\<^verbatim>\<open>processMessage(userId, userMessage, chatId)\<close>.\<close>

definition processMessage ::
  "deps \<Rightarrow> world \<Rightarrow> jsstring \<Rightarrow> jsstring \<Rightarrow> jsstring \<Rightarrow> (jserror + jsstring) \<times> world" where
  "processMessage d w userId userMessage chatId =
     (let w1 = addMessage w userId User userMessage chatId;
          messages = prepareMessages d w1 userId chatId;
          w2 = w1\<lparr>aiCalls := aiCalls w1 @ [messages]\<rparr>
      in
      case generateResponse d messages of
        Inl err \<Rightarrow> (Inl err, w2)
      | Inr aiResponse \<Rightarrow>
          if includes_js aiResponse marker then
            let cleanResponse = trim (replace aiResponse marker []);
                w3 = setMode w2 userId Support;
                w4 = updateSessionMode w3 userId chatId Support;
                w5 = addMessage w4 userId Assistant cleanResponse chatId;
                w6 = logger_log w5 SYSTEM
                       (lit ''Modo SOPORTE activado autom'' @ [225] @ lit ''ticamente para ''
                          @ userId)
                       None None None None
            in (Inr cleanResponse, w6)
          else (Inr aiResponse, addMessage w2 userId Assistant aiResponse chatId))"

text \<open>
  \<^verbatim>\<open>handleError(error, message)\<close>. \<open>errorReply\<close> is the choice of \<^verbatim>\<open>errorMessage\<close>:
  the apology, unless the error's message mentions the authentication or the API key.
  When the send throws, the \<^verbatim>\<open>catch\<close> prints to the console and the log call is
  skipped.
\<close>

definition errorReply :: "jserror \<Rightarrow> jsstring" where
  "errorReply err =
     (if includes_js (error_message err) (lit ''autenticaci'' @ [243] @ lit ''n'')
         \<or> includes_js (error_message err) (lit ''API key'')
      then configNotice else apology)"

definition handleError :: "deps \<Rightarrow> world \<Rightarrow> jserror \<Rightarrow> wa_message \<Rightarrow> world" where
  "handleError d w err msg =
     (let sender = remoteJid msg;
          userId = extractUserId (Some sender);
          errorMessage = errorReply err
      in
      case sendMessage d (sent w) sender errorMessage of
        Inl sendError \<Rightarrow> w
      | Inr sentId \<Rightarrow>
          logger_log (w\<lparr>sent := sent w @ [(sender, errorMessage)]\<rparr>) ERROR (error_message err)
            (Some userId) None None None)"

text \<open>
  \<^verbatim>\<open>msg.message.conversation || msg.message.extendedTextMessage?.text || ''\<close>.
\<close>

definition messageText :: "message_content \<Rightarrow> jsstring" where
  "messageText c = orElse (conversation c) (orElse (extendedText c) [])"

text \<open>
  Lines 215 to 244 of the handler: the identity, the sender's name and, for a group, the
  group's label; the receipt is logged with them.
\<close>

definition resolveUserId :: "wa_message \<Rightarrow> jsstring" where
  "resolveUserId msg =
     (if endsWith (remoteJid msg) (lit ''@g.us'')
      then replace (remoteJid msg) (lit ''@g.us'') []
      else extractUserId (Some (orElse (senderPn msg) (remoteJid msg))))"

definition resolveUserName :: "wa_message \<Rightarrow> jsstring" where
  "resolveUserName msg =
     (if endsWith (remoteJid msg) (lit ''@g.us'')
      then orElse (pushName msg) (lit ''Participante'')
      else orElse (pushName msg) (resolveUserId msg))"

definition resolveGroupName :: "deps \<Rightarrow> wa_message \<Rightarrow> jsstring" where
  "resolveGroupName d msg =
     (case groupMetadata d (remoteJid msg) of
        Inl err \<Rightarrow> lit ''Grupo''
      | Inr subject \<Rightarrow> orElse subject (lit ''Grupo sin nombre''))"

definition displayName :: "deps \<Rightarrow> wa_message \<Rightarrow> jsstring" where
  "displayName d msg =
     (if endsWith (remoteJid msg) (lit ''@g.us'') then resolveGroupName d msg
      else resolveUserName msg)"

definition logReceipt :: "deps \<Rightarrow> world \<Rightarrow> wa_message \<Rightarrow> jsstring \<Rightarrow> world" where
  "logReceipt d w msg t =
     logger_log w Cliente t (Some (resolveUserId msg)) (Some (displayName d msg))
       (Some (endsWith (remoteJid msg) (lit ''@g.us''))) None"

text \<open>
  Lines 272 to 292 of the handler, reached when no filter has stopped the message: a
  pending follow-up is cancelled, the reply is produced, the user's answer is analysed, and
  the reply is sent and logged under the message id the transport returns. An exception of
  \<^verbatim>\<open>processMessage\<close> or of the send lands in the handler's \<^verbatim>\<open>catch\<close>, which calls
  \<^verbatim>\<open>handleError\<close>.
\<close>

definition respond :: "deps \<Rightarrow> world \<Rightarrow> wa_message \<Rightarrow> jsstring \<Rightarrow> world" where
  "respond d w1 msg t =
     (let sender = remoteJid msg;
          isGroup = endsWith sender (lit ''@g.us'');
          userId = resolveUserId msg;
          w2 = (if hasActiveFollowUp w1 userId then cancelFollowUp w1 userId else w1)
      in
      case processMessage d w2 userId t sender of
        (Inl err, w3) \<Rightarrow> handleError d w3 err msg
      | (Inr response, w3) \<Rightarrow>
          (let w4 = analyzeUserResponse w3 userId t (getMessages w3 userId sender) in
           (case sendMessage d (sent w4) sender response of
              Inl err \<Rightarrow> handleError d w4 err msg
            | Inr sentId \<Rightarrow>
                logger_log (w4\<lparr>sent := sent w4 @ [(sender, response)]\<rparr>) Bot response
                  (Some userId) (Some (displayName d msg)) (Some isGroup) sentId)))"

text \<open>
  The handler of \<^verbatim>\<open>messages.upsert\<close>. It reads \<^verbatim>\<open>m.messages[0]\<close> only. On an event
  without a message the read of \<^verbatim>\<open>msg.message\<close> throws, and so does \<^verbatim>\<open>handleError\<close> on
  the missing message: the handler's promise is rejected.
\<close>

definition on_messages_upsert :: "deps \<Rightarrow> world \<Rightarrow> wa_message list \<Rightarrow> outcome \<times> world" where
  "on_messages_upsert d w ms =
     (case ms of
        [] \<Rightarrow> (Rejected, w)
      | msg # rest \<Rightarrow>
          (case message msg of
             None \<Rightarrow> (Resolved, w)
           | Some content \<Rightarrow>
               if fromMe msg then (Resolved, w)
               else
                 let sender = remoteJid msg;
                     isGroup = endsWith sender (lit ''@g.us'');
                     t = messageText content
                 in
                 if t = [] \<or> trim t = [] then (Resolved, w)
                 else
                   let userId = resolveUserId msg;
                       userName = resolveUserName msg;
                       w1 = logReceipt d w msg t;
                       isHuman = isHumanMode w1 userId;
                       isSupport = isSupportMode w1 userId
                   in
                   if isHuman \<or> isSupport then
                     (Resolved,
                      logger_log w1 SYSTEM
                        (lit ''Mensaje ignorado - Modo ''
                           @ (if isSupport then lit ''SOPORTE'' else lit ''HUMANO'')
                           @ lit '' activo para '' @ userName @ lit '' ('' @ userId @ lit '')'')
                        None None None None)
                   else if isGroup \<and> \<not> groupsAIEnabled w1 then
                     (Resolved,
                      logger_log w1 SYSTEM
                        (lit ''Mensaje de grupo ignorado - IA en grupos desactivada (''
                           @ resolveGroupName d msg @ lit '')'')
                        None None None None)
                   else if \<not> isGroup \<and> \<not> individualAIEnabled w1 then
                     (Resolved,
                      logger_log w1 SYSTEM
                        (lit ''Mensaje individual ignorado - IA individual desactivada (''
                           @ userName @ lit '')'')
                        None None None None)
                   else (Resolved, respond d w1 msg t)))"

section \<open>Executions\<close>

text \<open>
  What can happen to a bot: \<^verbatim>\<open>start()\<close> is called from outside, a pending timer fires
  (its callback calls \<^verbatim>\<open>start()\<close>), the transport emits one of its four events, or
  \<^verbatim>\<open>logout()\<close> is called. Each handler runs to its end before the next event; the
  interleaving of suspended handlers is not modelled.
\<close>

datatype event =
    Start start_result
  | TimerFires nat start_result
  | ConnectionUpdate connection_update
  | CredsUpdate
  | MessagesUpdate "status_update list"
  | MessagesUpsert "wa_message list"
  | Logout

definition step :: "deps \<Rightarrow> world \<Rightarrow> event \<Rightarrow> world" where
  "step d w e =
     (case e of
        Start r \<Rightarrow> snd (start w r)
      | TimerFires i r \<Rightarrow>
          (if i < length (timers w)
           then snd (start (w\<lparr>timers := take i (timers w) @ drop (Suc i) (timers w)\<rparr>) r)
           else w)
      | ConnectionUpdate u \<Rightarrow> on_connection_update d w u
      | CredsUpdate \<Rightarrow> w\<lparr>creds := True\<rparr>
      | MessagesUpdate us \<Rightarrow> on_messages_update w us
      | MessagesUpsert ms \<Rightarrow> snd (on_messages_upsert d w ms)
      | Logout \<Rightarrow> snd (logout d w))"

fun run :: "deps \<Rightarrow> world \<Rightarrow> event list \<Rightarrow> world" where
  "run d w [] = w"
| "run d w (e # es) = run d (step d w e) es"

section \<open>Concrete inputs\<close>

text \<open>
  Collaborators that answer plainly (the AI says hello, every send is accepted under the
  message id m1, the group is called Ventas), with the library's value 401 of
  \<^verbatim>\<open>DisconnectReason.loggedOut\<close>; a close event with a given status code; a
  delivery-status event for a message id with a given transport code; a direct-chat
  message from Ana with a given content and a group message of hers with a given text;
  and the variants of the collaborators in which the AI gives a fixed answer or throws a
  fixed error.
\<close>

definition demoDeps :: deps where
  "demoDeps =
     \<lparr>loggedOut = 401,
      generateResponse = (\<lambda>_. Inr (lit ''Hola'')),
      sendMessage = (\<lambda>_ _ _. Inr (Some (lit ''m1''))),
      groupMetadata = (\<lambda>_. Inr (Some (lit ''Ventas''))),
      getPrompt = (\<lambda>_. lit ''Eres un asistente''),
      sockLogout = None\<rparr>"

definition closeWith :: "int \<Rightarrow> connection_update" where
  "closeWith c = \<lparr>connection = Some Close, statusCode = Some c, qr = None\<rparr>"

definition statusEvent :: "jsstring \<Rightarrow> int \<Rightarrow> status_update" where
  "statusEvent m c =
     \<lparr>key_id = Some m, key_remoteJid = Some (lit ''5215512345678@s.whatsapp.net''),
      update_status = Some c\<rparr>"

definition directMessage :: "message_content \<Rightarrow> wa_message" where
  "directMessage c =
     \<lparr>fromMe = False, remoteJid = lit ''5215512345678@s.whatsapp.net'', senderPn = None,
      pushName = Some (lit ''Ana''), message = Some c\<rparr>"

definition textMessage :: "jsstring \<Rightarrow> wa_message" where
  "textMessage t = directMessage \<lparr>conversation = Some t, extendedText = None\<rparr>"

definition groupMessage :: "jsstring \<Rightarrow> wa_message" where
  "groupMessage t =
     \<lparr>fromMe = False, remoteJid = lit ''120363041234567890@g.us'', senderPn = None,
      pushName = Some (lit ''Ana''),
      message = Some \<lparr>conversation = None, extendedText = Some t\<rparr>\<rparr>"

definition answering :: "jsstring \<Rightarrow> deps" where
  "answering r = demoDeps\<lparr>generateResponse := (\<lambda>_. Inr r)\<rparr>"

definition failing :: "jsstring \<Rightarrow> deps" where
  "failing m = demoDeps\<lparr>generateResponse := (\<lambda>_. Inl (Error m))\<rparr>"

section \<open>The events that change the reconnect counter\<close>

text \<open>
  The classes of events named by claim C3 as amended. A credential rejection is a close
  event with status code 401, 403 or 405. A start fails when a step inside the \<^verbatim>\<open>try\<close>
  of \<^verbatim>\<open>start()\<close> throws while no other attempt holds the guard and the counter is below
  the maximum. \<open>increments\<close> holds of a credential rejection and of a failing start (called
  from outside or by a pending timer); \<open>resets\<close> holds of the open event, of a close event
  whose code is neither a credential rejection nor the explicit-logout code, and of
  \<^verbatim>\<open>logout()\<close>.
\<close>

definition credentialRejection :: "connection_update \<Rightarrow> bool" where
  "credentialRejection u =
     (connection u = Some Close \<and>
      (statusCode u = Some 401 \<or> statusCode u = Some 403 \<or> statusCode u = Some 405))"

definition startFails :: "world \<Rightarrow> start_result \<Rightarrow> bool" where
  "startFails w r =
     (r = SetupThrows \<and> \<not> isReconnecting w \<and> reconnectAttempts w < maxReconnectAttempts w)"

definition increments :: "world \<Rightarrow> event \<Rightarrow> bool" where
  "increments w e =
     (case e of
        ConnectionUpdate u \<Rightarrow> credentialRejection u
      | Start r \<Rightarrow> startFails w r
      | TimerFires i r \<Rightarrow> i < length (timers w) \<and> startFails w r
      | _ \<Rightarrow> False)"

definition resets :: "deps \<Rightarrow> event \<Rightarrow> bool" where
  "resets d e =
     (case e of
        ConnectionUpdate u \<Rightarrow>
          connection u = Some Open \<or>
          (connection u = Some Close \<and> statusCode u \<noteq> Some (loggedOut d) \<and>
           statusCode u \<noteq> Some 401 \<and> statusCode u \<noteq> Some 403 \<and> statusCode u \<noteq> Some 405)
      | Logout \<Rightarrow> True
      | _ \<Rightarrow> False)"

section \<open>Properties of identity normalisation\<close>

text \<open>A pattern that starts with the at sign (code unit 64) finds nothing in a string
  without one, and is looked for only behind such a string.\<close>

lemma replace_no_at: "64 \<notin> set x \<Longrightarrow> replace x (64 # p) r = x"
  by (induction x) auto

lemma replace_append_no_at:
  "64 \<notin> set u \<Longrightarrow> replace (u @ s) (64 # p) r = u @ replace s (64 # p) r"
  by (induction u) auto

lemma lit_suffixes:
  "lit ''@s.whatsapp.net'' = 64 # lit ''s.whatsapp.net''"
  "lit ''@lid'' = 64 # lit ''lid''"
  "lit ''@g.us'' = 64 # lit ''g.us''"
  by (simp_all add: lit_def)

lemma strip_direct:
  assumes "64 \<notin> set u"
  shows "extractUserId (Some (u @ lit ''@s.whatsapp.net'')) = u"
proof -
  have 1: "replace (u @ lit ''@s.whatsapp.net'') (lit ''@s.whatsapp.net'') [] = u"
    using assms by (simp add: lit_suffixes(1) replace_append_no_at)
  have 2: "replace u (lit ''@lid'') [] = u" "replace u (lit ''@g.us'') [] = u"
    using assms by (simp_all add: lit_suffixes replace_no_at)
  have t: "truthy (Some (u @ lit ''@s.whatsapp.net''))" by (simp add: truthy_def lit_def)
  show ?thesis by (simp add: extractUserId_def t 1 2)
qed

lemma strip_lid:
  assumes "64 \<notin> set u"
  shows "extractUserId (Some (u @ lit ''@lid'')) = u"
proof -
  have 0: "replace (lit ''@lid'') (lit ''@s.whatsapp.net'') [] = lit ''@lid''"
    by (simp add: lit_def)
  have 1: "replace (u @ lit ''@lid'') (lit ''@s.whatsapp.net'') [] = u @ lit ''@lid''"
    using assms 0 by (simp add: lit_suffixes(1) replace_append_no_at)
  have 2: "replace (u @ lit ''@lid'') (lit ''@lid'') [] = u"
    using assms by (simp add: lit_suffixes(2) replace_append_no_at)
  have 3: "replace u (lit ''@g.us'') [] = u"
    using assms by (simp add: lit_suffixes replace_no_at)
  have t: "truthy (Some (u @ lit ''@lid''))" by (simp add: truthy_def lit_def)
  show ?thesis by (simp add: extractUserId_def t 1 2 3)
qed

lemma strip_group:
  assumes "64 \<notin> set u"
  shows "extractUserId (Some (u @ lit ''@g.us'')) = u"
proof -
  have 0: "replace (lit ''@g.us'') (lit ''@s.whatsapp.net'') [] = lit ''@g.us''"
    "replace (lit ''@g.us'') (lit ''@lid'') [] = lit ''@g.us''"
    by (simp_all add: lit_def)
  have 1: "replace (u @ lit ''@g.us'') (lit ''@s.whatsapp.net'') [] = u @ lit ''@g.us''"
    using assms 0 by (simp add: lit_suffixes(1) replace_append_no_at)
  have 2: "replace (u @ lit ''@g.us'') (lit ''@lid'') [] = u @ lit ''@g.us''"
    using assms 0 by (simp add: lit_suffixes(2) replace_append_no_at)
  have 3: "replace (u @ lit ''@g.us'') (lit ''@g.us'') [] = u"
    using assms by (simp add: lit_suffixes(3) replace_append_no_at)
  have t: "truthy (Some (u @ lit ''@g.us''))" by (simp add: truthy_def lit_def)
  show ?thesis by (simp add: extractUserId_def t 1 2 3)
qed

text \<open>
  Claim C10, as amended. \<open>extractUserId\<close> is total: for \<^verbatim>\<open>null\<close>, \<^verbatim>\<open>undefined\<close> and the
  empty string it returns the empty string. For an address made of a user part without an
  at sign followed by one of the three transport suffixes (\<^verbatim>\<open>@s.whatsapp.net\<close>,
  \<^verbatim>\<open>@lid\<close>, \<^verbatim>\<open>@g.us\<close>) it returns the user part.
\<close>

theorem extractUserId_jid:
  "extractUserId None = [] \<and> extractUserId (Some []) = [] \<and>
   (\<forall>u s. of_char CHR ''@'' \<notin> set u \<and>
          (s = lit ''@s.whatsapp.net'' \<or> s = lit ''@lid'' \<or> s = lit ''@g.us'')
      \<longrightarrow> extractUserId (Some (u @ s)) = u)"
proof (intro conjI allI impI)
  show "extractUserId None = []" by (simp add: extractUserId_def truthy_def)
  show "extractUserId (Some []) = []" by (simp add: extractUserId_def truthy_def)
next
  fix u s :: jsstring
  assume a: "of_char CHR ''@'' \<notin> set u \<and>
             (s = lit ''@s.whatsapp.net'' \<or> s = lit ''@lid'' \<or> s = lit ''@g.us'')"
  then have "64 \<notin> set u" by simp
  with a show "extractUserId (Some (u @ s)) = u"
    using strip_direct strip_lid strip_group by blast
qed

text \<open>C10 at a direct-chat address.\<close>

theorem extractUserId_jid_witness:
  "extractUserId (Some (lit ''5215512345678'' @ lit ''@s.whatsapp.net'')) = lit ''5215512345678''"
proof -
  have "of_char CHR ''@'' \<notin> set (lit ''5215512345678'')" by (simp add: lit_def)
  with extractUserId_jid show ?thesis by blast
qed

text \<open>
  C10 as first stated fails: each \<^verbatim>\<open>replace\<close> removes the first occurrence of its text
  wherever it stands, so the address \<^verbatim>\<open>foo@lid@s.whatsapp.net\<close>, which ends in the
  direct-chat suffix, does not come back as \<^verbatim>\<open>foo@lid\<close> (it comes back as \<^verbatim>\<open>foo\<close>).
\<close>

theorem extractUserId_counterexample:
  "extractUserId (Some (lit ''foo@lid'' @ lit ''@s.whatsapp.net'')) \<noteq> lit ''foo@lid''"
  by (simp add: extractUserId_def truthy_def lit_def)

section \<open>Properties of the connection supervisor\<close>

text \<open>
  Claim C1, as amended. A close event with status code 401, 403 or 405 increments
  \<open>reconnectAttempts\<close> exactly once and leaves the bot disconnected with the guard
  released. If the counter then exceeds the maximum of 3, no reconnect is scheduled and the
  persisted credentials are left as they are; otherwise the credentials are destroyed and
  exactly one reconnect is scheduled, 5000 ms later.
\<close>

theorem credential_rejection_close:
  assumes "connection u = Some Close"
    and "statusCode u = Some 401 \<or> statusCode u = Some 403 \<or> statusCode u = Some 405"
    and "maxReconnectAttempts w = 3"
  shows "reconnectAttempts (on_connection_update d w u) = reconnectAttempts w + 1 \<and>
         connectionStatus (on_connection_update d w u) = Disconnected \<and>
         \<not> isReconnecting (on_connection_update d w u) \<and>
         (if 3 < reconnectAttempts w + 1
          then timers (on_connection_update d w u) = timers w \<and>
               creds (on_connection_update d w u) = creds w
          else timers (on_connection_update d w u) = timers w @ [5000] \<and>
               \<not> creds (on_connection_update d w u))"
  using assms by (auto simp: on_connection_update_def clearSession_def Let_def)

text \<open>C1 at the first rejection (code 403) of a fresh bot.\<close>

theorem credential_rejection_close_witness:
  "reconnectAttempts (on_connection_update demoDeps newWorld (closeWith 403)) = 1 \<and>
   timers (on_connection_update demoDeps newWorld (closeWith 403)) = [5000] \<and>
   \<not> creds (on_connection_update demoDeps newWorld (closeWith 403))"
  using credential_rejection_close [of "closeWith 403" newWorld demoDeps]
  by (simp add: closeWith_def newWorld_def constructor_def bot.defs world.defs)

text \<open>
  C1 as first stated fails. Three times in a row the session is rejected (code 401), the
  pending timer restarts the bot and the new socket saves fresh credentials; no open event
  comes between. At the fourth rejection the counter reaches 4, the handler returns
  before \<^verbatim>\<open>clearSession\<close>, and the credentials are still on disk, with no reconnect
  scheduled.
\<close>

theorem credential_rejection_counterexample:
  "creds (run demoDeps newWorld
      [ConnectionUpdate (closeWith 401), TimerFires 0 Started, CredsUpdate,
       ConnectionUpdate (closeWith 401), TimerFires 0 Started, CredsUpdate,
       ConnectionUpdate (closeWith 401), TimerFires 0 Started, CredsUpdate,
       ConnectionUpdate (closeWith 401)]) \<and>
   reconnectAttempts (run demoDeps newWorld
      [ConnectionUpdate (closeWith 401), TimerFires 0 Started, CredsUpdate,
       ConnectionUpdate (closeWith 401), TimerFires 0 Started, CredsUpdate,
       ConnectionUpdate (closeWith 401), TimerFires 0 Started, CredsUpdate,
       ConnectionUpdate (closeWith 401)]) = 4 \<and>
   timers (run demoDeps newWorld
      [ConnectionUpdate (closeWith 401), TimerFires 0 Started, CredsUpdate,
       ConnectionUpdate (closeWith 401), TimerFires 0 Started, CredsUpdate,
       ConnectionUpdate (closeWith 401), TimerFires 0 Started, CredsUpdate,
       ConnectionUpdate (closeWith 401)]) = []"
  by (simp add: step_def start_def on_connection_update_def closeWith_def newWorld_def
      constructor_def bot.defs world.defs truthy_def clearSession_def Let_def)

text \<open>
  Claim C2, as amended. A close event whose status code is neither 401, 403 or 405 nor
  the explicit-logout code schedules exactly one reconnect, 5000 ms later, whatever the
  counter was, and sets \<open>reconnectAttempts\<close> to 0; it never increments it, and the
  credentials are left as they are.
\<close>

theorem transient_close:
  assumes "connection u = Some Close"
    and "statusCode u \<noteq> Some 401" and "statusCode u \<noteq> Some 403" and "statusCode u \<noteq> Some 405"
    and "statusCode u \<noteq> Some (loggedOut d)"
  shows "reconnectAttempts (on_connection_update d w u) = 0 \<and>
         timers (on_connection_update d w u) = timers w @ [5000] \<and>
         creds (on_connection_update d w u) = creds w \<and>
         connectionStatus (on_connection_update d w u) = Disconnected \<and>
         \<not> isReconnecting (on_connection_update d w u)"
  using assms by (auto simp: on_connection_update_def Let_def)

text \<open>C2 at a timeout (code 408) with the counter at 2.\<close>

theorem transient_close_witness:
  "reconnectAttempts (on_connection_update demoDeps (newWorld\<lparr>reconnectAttempts := 2\<rparr>)
      (closeWith 408)) = 0 \<and>
   timers (on_connection_update demoDeps (newWorld\<lparr>reconnectAttempts := 2\<rparr>)
      (closeWith 408)) = [5000]"
  using transient_close [of "closeWith 408" demoDeps "newWorld\<lparr>reconnectAttempts := 2\<rparr>"]
  by (simp add: closeWith_def demoDeps_def newWorld_def constructor_def bot.defs world.defs)

text \<open>
  C2 as first stated fails: after two credential rejections the counter is 2, and a
  transient close (code 408) does not leave it unchanged but puts it back to 0.
\<close>

theorem transient_close_counterexample:
  "reconnectAttempts (run demoDeps newWorld
      [ConnectionUpdate (closeWith 401), ConnectionUpdate (closeWith 401)]) = 2 \<and>
   reconnectAttempts (run demoDeps newWorld
      [ConnectionUpdate (closeWith 401), ConnectionUpdate (closeWith 401),
       ConnectionUpdate (closeWith 408)]) = 0"
  by (simp add: step_def on_connection_update_def closeWith_def demoDeps_def newWorld_def
      constructor_def bot.defs world.defs truthy_def clearSession_def Let_def)

text \<open>
  Claim C6, as amended. \<open>logout\<close> clears the pairing challenge (\<open>currentQR\<close>), resets
  \<open>reconnectAttempts\<close> to 0 and purges the persisted credentials, and only then schedules
  the restart, 2000 ms later. Reconnects that were already scheduled stay scheduled.
\<close>

theorem logout_effects:
  "fst (logout d w) = True \<and>
   currentQR (snd (logout d w)) = None \<and>
   reconnectAttempts (snd (logout d w)) = 0 \<and>
   creds (snd (logout d w)) = False \<and>
   connectionStatus (snd (logout d w)) = Disconnected \<and>
   timers (snd (logout d w)) = timers w @ [2000]"
  by (simp add: logout_def clearSession_def Let_def split: option.split)

text \<open>C6 with one reconnect pending and credentials on disk.\<close>

theorem logout_effects_witness:
  "timers (snd (logout demoDeps (newWorld\<lparr>timers := [5000], creds := True\<rparr>))) = [5000, 2000] \<and>
   creds (snd (logout demoDeps (newWorld\<lparr>timers := [5000], creds := True\<rparr>))) = False"
  using logout_effects [of demoDeps "newWorld\<lparr>timers := [5000], creds := True\<rparr>"]
  by (simp add: newWorld_def constructor_def bot.defs world.defs)

text \<open>
  C6 as first stated fails: the reconnect scheduled by a transient close is still pending
  after \<open>logout\<close>, next to the restart that \<open>logout\<close> schedules itself.
\<close>

theorem logout_counterexample:
  "timers (run demoDeps newWorld [ConnectionUpdate (closeWith 408)]) = [5000] \<and>
   timers (run demoDeps newWorld [ConnectionUpdate (closeWith 408), Logout]) = [5000, 2000]"
  by (simp add: step_def on_connection_update_def logout_def closeWith_def demoDeps_def
      newWorld_def constructor_def bot.defs world.defs truthy_def clearSession_def Let_def)

text \<open>The methods of the dispatcher and the status handler leave the counter alone.\<close>

lemma logger_log_reconnectAttempts:
  "reconnectAttempts (logger_log w k t u n g m) = reconnectAttempts w"
  by (simp add: logger_log_def)

lemma processMessage_reconnectAttempts:
  "reconnectAttempts (snd (processMessage d w a b c)) = reconnectAttempts w"
  by (simp add: processMessage_def Let_def addMessage_def setMode_def updateSessionMode_def
      logger_log_reconnectAttempts split: sum.split)

lemma handleError_reconnectAttempts:
  "reconnectAttempts (handleError d w err msg) = reconnectAttempts w"
  by (simp add: handleError_def Let_def logger_log_reconnectAttempts split: sum.split)

lemma respond_reconnectAttempts:
  "reconnectAttempts (respond d w msg t) = reconnectAttempts w"
proof -
  define w2 where "w2 = (if hasActiveFollowUp w (resolveUserId msg)
                         then cancelFollowUp w (resolveUserId msg) else w)"
  have w2: "reconnectAttempts w2 = reconnectAttempts w"
    by (simp add: w2_def cancelFollowUp_def)
  obtain r w3 where p: "processMessage d w2 (resolveUserId msg) t (remoteJid msg) = (r, w3)"
    by (cases "processMessage d w2 (resolveUserId msg) t (remoteJid msg)")
  have w3: "reconnectAttempts w3 = reconnectAttempts w"
    using processMessage_reconnectAttempts [of d w2 "resolveUserId msg" t "remoteJid msg"] p w2
    by simp
  show ?thesis
    unfolding respond_def Let_def w2_def [symmetric] p
    by (cases r)
      (simp_all add: w3 handleError_reconnectAttempts analyzeUserResponse_def
        logger_log_reconnectAttempts split: sum.split)
qed

lemma on_messages_upsert_reconnectAttempts:
  "reconnectAttempts (snd (on_messages_upsert d w ms)) = reconnectAttempts w"
  by (simp add: on_messages_upsert_def Let_def logReceipt_def respond_reconnectAttempts
      logger_log_reconnectAttempts split: list.split option.split)

lemma on_messages_update_reconnectAttempts:
  "reconnectAttempts (on_messages_update w us) = reconnectAttempts w"
  by (induction us arbitrary: w)
    (simp_all add: applyStatusUpdate_def updateMessageStatus_def split: option.split)

lemma step_reconnectAttempts:
  "reconnectAttempts (step d w e) =
     (if increments w e then reconnectAttempts w + 1
      else if resets d e then 0
      else reconnectAttempts w)"
proof (cases e)
  case (Start r)
  then show ?thesis
    by (cases r) (simp_all add: step_def start_def increments_def resets_def startFails_def Let_def)
next
  case (TimerFires i r)
  then show ?thesis
    by (cases r) (simp_all add: step_def start_def increments_def resets_def startFails_def Let_def)
next
  case (ConnectionUpdate u)
  then show ?thesis
    by (auto simp: step_def on_connection_update_def increments_def resets_def
        credentialRejection_def clearSession_def logger_log_reconnectAttempts Let_def)
next
  case CredsUpdate
  then show ?thesis by (simp add: step_def increments_def resets_def)
next
  case (MessagesUpdate us)
  then show ?thesis
    by (simp add: step_def increments_def resets_def on_messages_update_reconnectAttempts)
next
  case (MessagesUpsert ms)
  then show ?thesis
    by (simp add: step_def increments_def resets_def on_messages_upsert_reconnectAttempts)
next
  case Logout
  then show ?thesis
    by (simp add: step_def increments_def resets_def logout_def Let_def clearSession_def
        split: option.split)
qed

lemma run_nonneg: "0 \<le> reconnectAttempts w \<Longrightarrow> 0 \<le> reconnectAttempts (run d w es)"
proof (induction es arbitrary: w)
  case Nil
  then show ?case by simp
next
  case (Cons e es)
  have "0 \<le> reconnectAttempts (step d w e)"
    using Cons.prems by (simp add: step_reconnectAttempts)
  then show ?case using Cons.IH by simp
qed

text \<open>
  Claim C3, as amended. \<open>reconnectAttempts\<close> is a non-negative integer over every
  execution of a fresh bot (and of any bot whose counter is non-negative). One event
  changes it in one of three ways: it is incremented by exactly 1 when a close event
  carries a credential-rejection code, and also when \<^verbatim>\<open>start()\<close> fails inside its
  \<^verbatim>\<open>try\<close> while the counter is below the maximum; it is reset to 0 by the open event,
  and also by a close event with a transient code and by \<^verbatim>\<open>logout()\<close>; every other event
  leaves it unchanged.
\<close>

theorem reconnectAttempts_changes:
  "0 \<le> reconnectAttempts (run d newWorld es) \<and>
   (0 \<le> reconnectAttempts w \<longrightarrow> 0 \<le> reconnectAttempts (run d w es)) \<and>
   reconnectAttempts (step d w e) =
     (if increments w e then reconnectAttempts w + 1
      else if resets d e then 0
      else reconnectAttempts w)"
  using run_nonneg [of w d es] run_nonneg [of newWorld d es] step_reconnectAttempts [of d w e]
  by (simp add: newWorld_def constructor_def bot.defs world.defs)

text \<open>C3 at a first credential rejection, and along a short execution.\<close>

theorem reconnectAttempts_changes_witness:
  "reconnectAttempts (step demoDeps newWorld (ConnectionUpdate (closeWith 401))) = 1 \<and>
   0 \<le> reconnectAttempts (run demoDeps newWorld [Start SetupThrows, Logout])"
  using reconnectAttempts_changes
    [of demoDeps "[Start SetupThrows, Logout]" newWorld "ConnectionUpdate (closeWith 401)"]
  by (simp add: increments_def credentialRejection_def closeWith_def newWorld_def
      constructor_def bot.defs world.defs)

text \<open>
  C3 as first stated fails twice. A \<^verbatim>\<open>start()\<close> whose set-up throws increments the
  counter of a fresh bot with no close event at all; and after a credential rejection,
  \<^verbatim>\<open>logout()\<close> resets the counter with no open event.
\<close>

theorem reconnectAttempts_counterexample:
  "reconnectAttempts (step demoDeps newWorld (Start SetupThrows)) = 1 \<and>
   reconnectAttempts (run demoDeps newWorld [ConnectionUpdate (closeWith 401)]) = 1 \<and>
   reconnectAttempts (run demoDeps newWorld [ConnectionUpdate (closeWith 401), Logout]) = 0"
  by (simp add: step_def start_def on_connection_update_def logout_def closeWith_def
      demoDeps_def newWorld_def constructor_def bot.defs world.defs truthy_def
      clearSession_def Let_def)

section \<open>Properties of the delivery status\<close>

lemma updateMessageStatus_mono:
  "storedRank (statuses w x) \<le> storedRank (statuses (updateMessageStatus w m s) x)"
  by (simp add: updateMessageStatus_def storedRank_def)

lemma applyStatusUpdate_mono:
  "storedRank (statuses w x) \<le> storedRank (statuses (applyStatusUpdate w u) x)"
  by (simp add: applyStatusUpdate_def updateMessageStatus_mono split: option.split)

lemma on_messages_update_mono:
  "storedRank (statuses w x) \<le> storedRank (statuses (on_messages_update w us) x)"
proof (induction us arbitrary: w)
  case Nil
  show ?case by simp
next
  case (Cons u us)
  have "storedRank (statuses w x) \<le> storedRank (statuses (applyStatusUpdate w u) x)"
    by (rule applyStatusUpdate_mono)
  also have "\<dots> \<le> storedRank (statuses (on_messages_update (applyStatusUpdate w u) us) x)"
    by (rule Cons.IH)
  finally show ?case by simp
qed

text \<open>
  What the handler does with one event, with a list of events, and with the three events
  of the scenario, for any message id that is not empty.
\<close>

lemma on_messages_update_append:
  "on_messages_update w (us @ vs) = on_messages_update (on_messages_update w us) vs"
  by (induction us arbitrary: w) simp_all

lemma single_status_event:
  assumes "key_id u = Some m" and "m \<noteq> []" and "statusOf (update_status u) = Some s"
  shows "statuses (on_messages_update w [u]) =
           (if storedRank (statuses w m) \<le> rank s then (statuses w)(m := Some s)
            else statuses w)"
  using assms by (simp add: applyStatusUpdate_def updateMessageStatus_def truthy_def)

lemma unrecognised_status_event:
  assumes "update_status u \<noteq> Some 1" and "update_status u \<noteq> Some 2"
    and "update_status u \<noteq> Some 4"
  shows "on_messages_update w [u] = w"
  using assms by (simp add: applyStatusUpdate_def statusOf_def)

lemma anonymous_status_event:
  assumes "\<not> truthy (key_id u)"
  shows "on_messages_update w [u] = w"
  using assms by (simp add: applyStatusUpdate_def split: option.split)

lemma read_delivered_sent:
  assumes "m \<noteq> []"
  shows "statuses (on_messages_update w [statusEvent m 4, statusEvent m 2, statusEvent m 1]) m
           = Some Read"
  using assms
  by (cases "statuses w m")
    (simp_all add: applyStatusUpdate_def statusEvent_def statusOf_def updateMessageStatus_def
      storedRank_def rank_def truthy_def split: delivery.split)

text \<open>
  Claim C9. The transport codes 1, 2 and 4 are mapped to sent, delivered and read, of
  ranks 1, 2 and 3; code 3 is mapped to nothing. For every delivery-status event with a
  message id and one of the codes 1, 2 and 4, the mapped status is stored for that id if
  its rank is at least the stored one, and nothing else changes in the store; an event
  with any other code (code 3 among them), or without a message id, changes nothing at
  all. A list of events is handled one event after the other. Whatever list is handled,
  the stored rank of no message id decreases (no stored status counts as rank 0). Read,
  then delivered, then sent for one message id leaves its stored status at read, whatever
  was stored before.
\<close>

theorem delivery_status_rank:
  "statusOf (Some 1) = Some Sent \<and> statusOf (Some 2) = Some Delivered \<and>
   statusOf (Some 4) = Some Read \<and> statusOf (Some 3) = None \<and>
   rank Sent = 1 \<and> rank Delivered = 2 \<and> rank Read = 3 \<and>
   (\<forall>w u m s. key_id u = Some m \<and> m \<noteq> [] \<and> statusOf (update_status u) = Some s \<longrightarrow>
      statuses (on_messages_update w [u]) =
        (if storedRank (statuses w m) \<le> rank s then (statuses w)(m := Some s)
         else statuses w)) \<and>
   (\<forall>w u. update_status u \<noteq> Some 1 \<and> update_status u \<noteq> Some 2 \<and> update_status u \<noteq> Some 4
      \<longrightarrow> on_messages_update w [u] = w) \<and>
   (\<forall>w u. key_id u = None \<or> key_id u = Some [] \<longrightarrow> on_messages_update w [u] = w) \<and>
   (\<forall>w us vs. on_messages_update w (us @ vs)
      = on_messages_update (on_messages_update w us) vs) \<and>
   (\<forall>w us m. storedRank (statuses w m) \<le> storedRank (statuses (on_messages_update w us) m)) \<and>
   (\<forall>w m. m \<noteq> [] \<longrightarrow>
      statuses (on_messages_update w [statusEvent m 4, statusEvent m 2, statusEvent m 1]) m
        = Some Read)"
proof (intro conjI allI impI)
  show "statusOf (Some 1) = Some Sent" "statusOf (Some 2) = Some Delivered"
    "statusOf (Some 4) = Some Read" "statusOf (Some 3) = None"
    by (simp_all add: statusOf_def)
  show "rank Sent = 1" "rank Delivered = 2" "rank Read = 3"
    by (simp_all add: rank_def)
next
  fix w and u :: status_update and m s
  assume "key_id u = Some m \<and> m \<noteq> [] \<and> statusOf (update_status u) = Some s"
  then show "statuses (on_messages_update w [u]) =
        (if storedRank (statuses w m) \<le> rank s then (statuses w)(m := Some s)
         else statuses w)"
    using single_status_event [of u m s w] by blast
next
  fix w and u :: status_update
  assume "update_status u \<noteq> Some 1 \<and> update_status u \<noteq> Some 2 \<and> update_status u \<noteq> Some 4"
  then show "on_messages_update w [u] = w"
    using unrecognised_status_event [of u w] by blast
next
  fix w and u :: status_update
  assume "key_id u = None \<or> key_id u = Some []"
  then have "\<not> truthy (key_id u)" by (auto simp: truthy_def)
  then show "on_messages_update w [u] = w" by (rule anonymous_status_event)
next
  fix w us vs
  show "on_messages_update w (us @ vs) = on_messages_update (on_messages_update w us) vs"
    by (rule on_messages_update_append)
next
  fix w us m
  show "storedRank (statuses w m) \<le> storedRank (statuses (on_messages_update w us) m)"
    by (rule on_messages_update_mono)
next
  fix w m
  assume "m \<noteq> ([] :: jsstring)"
  then show "statuses (on_messages_update w
                [statusEvent m 4, statusEvent m 2, statusEvent m 1]) m = Some Read"
    by (rule read_delivered_sent)
qed

text \<open>C9 on a fresh store, for the message ids m1 and m2.\<close>

theorem delivery_status_rank_witness:
  "statuses (on_messages_update newWorld
       [statusEvent (lit ''m1'') 4, statusEvent (lit ''m1'') 2, statusEvent (lit ''m1'') 1])
     (lit ''m1'') = Some Read \<and>
   on_messages_update newWorld [statusEvent (lit ''m1'') 3] = newWorld \<and>
   statuses (on_messages_update newWorld [statusEvent (lit ''m2'') 2]) (lit ''m2'')
     = Some Delivered"
proof -
  have n: "lit ''m1'' \<noteq> []" "lit ''m2'' \<noteq> []" by (simp_all add: lit_def)
  have k: "key_id (statusEvent (lit ''m2'') 2) = Some (lit ''m2'')"
    "statusOf (update_status (statusEvent (lit ''m2'') 2)) = Some Delivered"
    "update_status (statusEvent (lit ''m1'') 3) \<noteq> Some 1"
    "update_status (statusEvent (lit ''m1'') 3) \<noteq> Some 2"
    "update_status (statusEvent (lit ''m1'') 3) \<noteq> Some 4"
    by (simp_all add: statusEvent_def statusOf_def)
  have s: "storedRank (statuses newWorld (lit ''m2'')) \<le> rank Delivered"
    by (simp add: newWorld_def constructor_def bot.defs world.defs storedRank_def)
  from delivery_status_rank n k s show ?thesis by (auto simp del: on_messages_update.simps)
qed

section \<open>Properties of the message dispatcher\<close>

lemmas collaborator_defs =
  logger_log_def addMessage_def getMessages_def setMode_def updateSessionMode_def
  hasActiveFollowUp_def cancelFollowUp_def analyzeUserResponse_def isHumanMode_def
  isSupportMode_def

text \<open>
  A message that no filter stops (it has content, is not the bot's own, carries text that
  is not blank, its identity is in mode AI and the AI is enabled for its audience) has its
  receipt logged and goes on to \<open>respond\<close>.
\<close>

lemma upsert_passes:
  assumes "message msg = Some content" and "\<not> fromMe msg"
    and "trim (messageText content) \<noteq> []"
    and "modes w (resolveUserId msg) = AI"
    and "if endsWith (remoteJid msg) (lit ''@g.us'') then groupsAIEnabled w
         else individualAIEnabled w"
  shows "on_messages_upsert d w (msg # rest) =
           (Resolved, respond d (logReceipt d w msg (messageText content)) msg
                        (messageText content))"
proof -
  have t: "messageText content \<noteq> []"
    using assms(3) by (auto simp: trim_def)
  show ?thesis
    using assms t
    by (simp add: on_messages_upsert_def Let_def logReceipt_def collaborator_defs
        split: if_splits)
qed

lemma logReceipt_fields:
  "sent (logReceipt d w msg t) = sent w"
  "sessions (logReceipt d w msg t) = sessions w"
  "modes (logReceipt d w msg t) = modes w"
  "sessionModes (logReceipt d w msg t) = sessionModes w"
  "logs (logReceipt d w msg t) =
     logs w @ [\<lparr>le_kind = Cliente, le_text = t, le_userId = Some (resolveUserId msg),
                le_userName = Some (displayName d msg),
                le_isGroup = Some (endsWith (remoteJid msg) (lit ''@g.us'')),
                le_messageId = None\<rparr>]"
  by (simp_all add: logReceipt_def logger_log_def)

text \<open>The concrete inputs, evaluated.\<close>

lemma textMessage_fields:
  "message (textMessage t) = Some \<lparr>conversation = Some t, extendedText = None\<rparr>"
  "\<not> fromMe (textMessage t)"
  "remoteJid (textMessage t) = lit ''5215512345678@s.whatsapp.net''"
  "resolveUserId (textMessage t) = lit ''5215512345678''"
  "resolveUserName (textMessage t) = lit ''Ana''"
  "endsWith (lit ''5215512345678@s.whatsapp.net'') (lit ''@g.us'') = False"
  by (simp_all add: textMessage_def directMessage_def resolveUserId_def resolveUserName_def
      endsWith_def suffix_to_prefix orElse_def truthy_def extractUserId_def lit_def)

lemma greeting_evaluated: "messageText \<lparr>conversation = Some (lit ''hola''), extendedText = None\<rparr> = lit ''hola''"
  "trim (lit ''hola'') = lit ''hola''" "lit ''hola'' \<noteq> []"
  by (simp_all add: messageText_def orElse_def truthy_def trim_def isWhiteSpace_def lit_def)

lemma newWorld_fields:
  "sent newWorld = []" "logs newWorld = []" "aiCalls newWorld = []"
  "sessions newWorld = (\<lambda>_. [])" "modes newWorld = (\<lambda>_. AI)" "sessionModes newWorld = (\<lambda>_. None)"
  "individualAIEnabled newWorld" "groupsAIEnabled newWorld"
  by (simp_all add: newWorld_def constructor_def bot.defs world.defs)

lemma failing_fields:
  "generateResponse (failing m) h = Inl (Error m)"
  "sendMessage (failing m) xs j t = Inr (Some (lit ''m1''))"
  "getPrompt (failing m) g = lit ''Eres un asistente''"
  by (simp_all add: failing_def demoDeps_def)

lemma answering_fields:
  "generateResponse (answering r) h = Inr r"
  "sendMessage (answering r) xs j t = Inr (Some (lit ''m1''))"
  "getPrompt (answering r) g = lit ''Eres un asistente''"
  by (simp_all add: answering_def demoDeps_def)

lemma errorReply_examples:
  "errorReply (Error (lit ''timeout'')) = apology"
  "errorReply (Error (lit ''Invalid API key'')) = configNotice"
  "configNotice \<noteq> apology"
  by (simp_all add: errorReply_def configNotice_def apology_def lit_def)

text \<open>Every path through \<open>respond\<close> calls the AI once, with the prompt and the history.\<close>

lemma processMessage_aiCalls:
  "aiCalls (snd (processMessage d w u t c)) =
     aiCalls w @ [(System, getPrompt d (endsWith c (lit ''@g.us''))) # sessions w (u, c) @ [(User, t)]]"
  by (simp add: processMessage_def prepareMessages_def Let_def collaborator_defs
      split: sum.split)

lemma handleError_aiCalls: "aiCalls (handleError d w err msg) = aiCalls w"
  by (simp add: handleError_def Let_def collaborator_defs split: sum.split)

lemma respond_aiCalls:
  "aiCalls (respond d w msg t) =
     aiCalls w @ [(System, getPrompt d (endsWith (remoteJid msg) (lit ''@g.us'')))
                   # sessions w (resolveUserId msg, remoteJid msg) @ [(User, t)]]"
proof -
  define w2 where "w2 = (if hasActiveFollowUp w (resolveUserId msg)
                         then cancelFollowUp w (resolveUserId msg) else w)"
  have w2: "aiCalls w2 = aiCalls w" "sessions w2 = sessions w"
    by (simp_all add: w2_def cancelFollowUp_def)
  obtain r w3 where p: "processMessage d w2 (resolveUserId msg) t (remoteJid msg) = (r, w3)"
    by (cases "processMessage d w2 (resolveUserId msg) t (remoteJid msg)")
  have w3: "aiCalls w3 = aiCalls w @ [(System, getPrompt d (endsWith (remoteJid msg) (lit ''@g.us'')))
                   # sessions w (resolveUserId msg, remoteJid msg) @ [(User, t)]]"
    using processMessage_aiCalls [of d w2 "resolveUserId msg" t "remoteJid msg"] p w2
    by simp
  show ?thesis
    unfolding respond_def Let_def w2_def [symmetric] p
    by (cases r)
      (simp_all add: w3 handleError_aiCalls analyzeUserResponse_def logger_log_def
        split: sum.split)
qed

text \<open>
  Claim C8. An inbound message event whose first message passes the filter chain (not a
  self-echo, text that is not blank, mode AI, AI enabled for the audience) makes the
  handler call the AI-processing collaborator exactly once, on the system prompt followed
  by the identity's history with the new message at its end; the later messages of the
  event play no part. The property holds in every state of the surroundings, however many
  calls were made before: no counter or queue of calls in flight is consulted.
\<close>

theorem one_ai_call:
  assumes "message msg = Some content" and "\<not> fromMe msg"
    and "trim (messageText content) \<noteq> []"
    and "modes w (resolveUserId msg) = AI"
    and "if endsWith (remoteJid msg) (lit ''@g.us'') then groupsAIEnabled w
         else individualAIEnabled w"
  shows "aiCalls (snd (on_messages_upsert d w (msg # rest))) =
           aiCalls w @ [(System, getPrompt d (endsWith (remoteJid msg) (lit ''@g.us'')))
                         # sessions w (resolveUserId msg, remoteJid msg)
                         @ [(User, messageText content)]]"
  using upsert_passes [OF assms, of d rest]
  by (simp add: respond_aiCalls logReceipt_def logger_log_def)

text \<open>C8 at a greeting from Ana, in an event of two messages.\<close>

theorem one_ai_call_witness:
  "aiCalls (snd (on_messages_upsert demoDeps newWorld
       [textMessage (lit ''hola''), textMessage (lit ''otra'')])) =
     [[(System, lit ''Eres un asistente''), (User, lit ''hola'')]]"
proof -
  have "aiCalls newWorld = []" "sessions newWorld = (\<lambda>_. [])" "modes newWorld = (\<lambda>_. AI)"
    "individualAIEnabled newWorld"
    by (simp_all add: newWorld_def constructor_def bot.defs world.defs)
  then show ?thesis
    using one_ai_call [of "textMessage (lit ''hola'')"
        "\<lparr>conversation = Some (lit ''hola''), extendedText = None\<rparr>" newWorld demoDeps
        "[textMessage (lit ''otra'')]"]
    by (simp add: textMessage_fields greeting_evaluated demoDeps_def)
qed

text \<open>
  Claim C7. For the inbound message the handler dispatches (the first of the event, past
  the self-echo and text filters, as the claim's place in the chain has it) whose
  identity's persisted mode is HUMAN or SUPPORT, the handler logs the receipt first, then
  the suppression note, and stops: nothing is sent and the AI is not called, whatever
  else the event carries.
\<close>

theorem suppressed_when_not_ai:
  assumes "message msg = Some content" and "\<not> fromMe msg"
    and "trim (messageText content) \<noteq> []"
    and "modes w (resolveUserId msg) \<noteq> AI"
  shows "fst (on_messages_upsert d w (msg # rest)) = Resolved \<and>
         logs (snd (on_messages_upsert d w (msg # rest))) =
           logs w @
           [\<lparr>le_kind = Cliente, le_text = messageText content,
             le_userId = Some (resolveUserId msg), le_userName = Some (displayName d msg),
             le_isGroup = Some (endsWith (remoteJid msg) (lit ''@g.us'')),
             le_messageId = None\<rparr>,
            \<lparr>le_kind = SYSTEM,
             le_text = lit ''Mensaje ignorado - Modo ''
               @ (if modes w (resolveUserId msg) = Support then lit ''SOPORTE''
                  else lit ''HUMANO'')
               @ lit '' activo para '' @ resolveUserName msg @ lit '' (''
               @ resolveUserId msg @ lit '')'',
             le_userId = None, le_userName = None, le_isGroup = None, le_messageId = None\<rparr>] \<and>
         sent (snd (on_messages_upsert d w (msg # rest))) = sent w \<and>
         aiCalls (snd (on_messages_upsert d w (msg # rest))) = aiCalls w"
proof -
  have t: "messageText content \<noteq> []"
    using assms(3) by (auto simp: trim_def)
  have m: "modes w (resolveUserId msg) = Human \<or> modes w (resolveUserId msg) = Support"
    using assms(4) by (cases "modes w (resolveUserId msg)") simp_all
  show ?thesis
    using assms(1-3) t m
    by (auto simp: on_messages_upsert_def Let_def logReceipt_def collaborator_defs)
qed

text \<open>C7 at a greeting from Ana while her chat is in mode HUMAN.\<close>

theorem suppressed_when_not_ai_witness:
  "map le_kind (logs (snd (on_messages_upsert demoDeps (newWorld\<lparr>modes := (\<lambda>_. Human)\<rparr>)
       [textMessage (lit ''hola'')]))) = [Cliente, SYSTEM] \<and>
   sent (snd (on_messages_upsert demoDeps (newWorld\<lparr>modes := (\<lambda>_. Human)\<rparr>)
       [textMessage (lit ''hola'')])) = []"
proof -
  have "logs (newWorld\<lparr>modes := (\<lambda>_. Human)\<rparr>) = []" "sent (newWorld\<lparr>modes := (\<lambda>_. Human)\<rparr>) = []"
    by (simp_all add: newWorld_def constructor_def bot.defs world.defs)
  then show ?thesis
    using suppressed_when_not_ai [of "textMessage (lit ''hola'')"
        "\<lparr>conversation = Some (lit ''hola''), extendedText = None\<rparr>"
        "newWorld\<lparr>modes := (\<lambda>_. Human)\<rparr>" demoDeps "[]"]
    by (simp add: textMessage_fields greeting_evaluated)
qed

text \<open>
  What \<open>respond\<close> does when the AI throws and the transport accepts the error reply, and
  when the AI's answer holds the hand-off marker and the transport accepts the reply.
\<close>

lemma respond_ai_error:
  assumes "generateResponse d
             ((System, getPrompt d (endsWith (remoteJid msg) (lit ''@g.us'')))
               # sessions w (resolveUserId msg, remoteJid msg) @ [(User, t)]) = Inl err"
    and "sendMessage d (sent w) (remoteJid msg) (errorReply err) = Inr sentId"
  shows "sent (respond d w msg t) = sent w @ [(remoteJid msg, errorReply err)]"
    and "logs (respond d w msg t) =
           logs w @ [\<lparr>le_kind = ERROR, le_text = error_message err,
                      le_userId = Some (extractUserId (Some (remoteJid msg))),
                      le_userName = None, le_isGroup = None, le_messageId = None\<rparr>]"
    and "modes (respond d w msg t) = modes w"
    and "sessionModes (respond d w msg t) = sessionModes w"
    and "sessions (respond d w msg t) =
           (sessions w)((resolveUserId msg, remoteJid msg) :=
              sessions w (resolveUserId msg, remoteJid msg) @ [(User, t)])"
  using assms
  by (simp_all add: respond_def processMessage_def handleError_def prepareMessages_def Let_def
      collaborator_defs)

lemma respond_handoff:
  assumes "generateResponse d
             ((System, getPrompt d (endsWith (remoteJid msg) (lit ''@g.us'')))
               # sessions w (resolveUserId msg, remoteJid msg) @ [(User, t)]) = Inr r"
    and "includes_js r marker"
    and "sendMessage d (sent w) (remoteJid msg) (trim (replace r marker [])) = Inr sentId"
  shows "sent (respond d w msg t) = sent w @ [(remoteJid msg, trim (replace r marker []))]"
    and "modes (respond d w msg t) = (modes w)(resolveUserId msg := Support)"
    and "logs (respond d w msg t) =
           logs w @
           [\<lparr>le_kind = SYSTEM,
             le_text = lit ''Modo SOPORTE activado autom'' @ [225] @ lit ''ticamente para ''
                         @ resolveUserId msg,
             le_userId = None, le_userName = None, le_isGroup = None, le_messageId = None\<rparr>,
            \<lparr>le_kind = Bot, le_text = trim (replace r marker []),
             le_userId = Some (resolveUserId msg), le_userName = Some (displayName d msg),
             le_isGroup = Some (endsWith (remoteJid msg) (lit ''@g.us'')),
             le_messageId = sentId\<rparr>]"
  using assms
  by (simp_all add: respond_def processMessage_def prepareMessages_def Let_def
      collaborator_defs)

text \<open>
  Claim C5, as amended. If the AI-processing collaborator raises an error during a
  dispatch cycle, exactly one reply goes to the originating address: the generic apology,
  or the configuration notice when the error's message mentions the authentication or the
  API key. When the transport accepts that reply, the error's message is logged. The
  identity's mode and session mode are left unchanged; the conversation history gains
  exactly the inbound message, which was stored before the AI was called.
\<close>

theorem ai_error_reply:
  assumes "message msg = Some content" and "\<not> fromMe msg"
    and "trim (messageText content) \<noteq> []"
    and "modes w (resolveUserId msg) = AI"
    and "if endsWith (remoteJid msg) (lit ''@g.us'') then groupsAIEnabled w
         else individualAIEnabled w"
    and "generateResponse d
           ((System, getPrompt d (endsWith (remoteJid msg) (lit ''@g.us'')))
             # sessions w (resolveUserId msg, remoteJid msg) @ [(User, messageText content)])
         = Inl err"
    and "sendMessage d (sent w) (remoteJid msg) (errorReply err) = Inr sentId"
  shows "fst (on_messages_upsert d w (msg # rest)) = Resolved \<and>
         sent (snd (on_messages_upsert d w (msg # rest))) =
           sent w @ [(remoteJid msg, errorReply err)] \<and>
         logs (snd (on_messages_upsert d w (msg # rest))) =
           logs w @
           [\<lparr>le_kind = Cliente, le_text = messageText content,
             le_userId = Some (resolveUserId msg), le_userName = Some (displayName d msg),
             le_isGroup = Some (endsWith (remoteJid msg) (lit ''@g.us'')),
             le_messageId = None\<rparr>,
            \<lparr>le_kind = ERROR, le_text = error_message err,
             le_userId = Some (extractUserId (Some (remoteJid msg))),
             le_userName = None, le_isGroup = None, le_messageId = None\<rparr>] \<and>
         modes (snd (on_messages_upsert d w (msg # rest))) = modes w \<and>
         sessionModes (snd (on_messages_upsert d w (msg # rest))) = sessionModes w \<and>
         sessions (snd (on_messages_upsert d w (msg # rest))) =
           (sessions w)((resolveUserId msg, remoteJid msg) :=
              sessions w (resolveUserId msg, remoteJid msg) @ [(User, messageText content)])"
proof -
  let ?t = "messageText content"
  let ?w1 = "logReceipt d w msg ?t"
  have u: "on_messages_upsert d w (msg # rest) = (Resolved, respond d ?w1 msg ?t)"
    using assms(1-5) by (rule upsert_passes)
  have g: "generateResponse d
             ((System, getPrompt d (endsWith (remoteJid msg) (lit ''@g.us'')))
               # sessions ?w1 (resolveUserId msg, remoteJid msg) @ [(User, ?t)]) = Inl err"
    using assms(6) by (simp add: logReceipt_fields)
  have s: "sendMessage d (sent ?w1) (remoteJid msg) (errorReply err) = Inr sentId"
    using assms(7) by (simp add: logReceipt_fields)
  show ?thesis
    by (simp add: u respond_ai_error [OF g s] logReceipt_fields)
qed

text \<open>C5 at a timeout of the AI while Ana says hello.\<close>

theorem ai_error_reply_witness:
  "sent (snd (on_messages_upsert (failing (lit ''timeout'')) newWorld
       [textMessage (lit ''hola'')])) =
     [(lit ''5215512345678@s.whatsapp.net'', apology)] \<and>
   map le_kind (logs (snd (on_messages_upsert (failing (lit ''timeout'')) newWorld
       [textMessage (lit ''hola'')]))) = [Cliente, ERROR] \<and>
   modes (snd (on_messages_upsert (failing (lit ''timeout'')) newWorld
       [textMessage (lit ''hola'')])) = modes newWorld"
  using ai_error_reply [of "textMessage (lit ''hola'')"
      "\<lparr>conversation = Some (lit ''hola''), extendedText = None\<rparr>" newWorld
      "failing (lit ''timeout'')" "Error (lit ''timeout'')" "Some (lit ''m1'')" "[]"]
  by (simp add: textMessage_fields greeting_evaluated newWorld_fields failing_fields errorReply_examples)

text \<open>
  C5 as first stated fails: when the AI fails with the message Invalid API key, the one reply is
  the configuration notice, not the generic apology, and the conversation history of the
  identity, empty before, holds the inbound message afterwards.
\<close>

theorem ai_error_counterexample:
  "sent (snd (on_messages_upsert (failing (lit ''Invalid API key'')) newWorld
       [textMessage (lit ''hola'')])) =
     [(lit ''5215512345678@s.whatsapp.net'', configNotice)] \<and>
   configNotice \<noteq> apology \<and>
   sessions newWorld (lit ''5215512345678'', lit ''5215512345678@s.whatsapp.net'') = [] \<and>
   sessions (snd (on_messages_upsert (failing (lit ''Invalid API key'')) newWorld
       [textMessage (lit ''hola'')]))
     (lit ''5215512345678'', lit ''5215512345678@s.whatsapp.net'') = [(User, lit ''hola'')]"
proof -
  let ?msg = "textMessage (lit ''hola'')"
  let ?d = "failing (lit ''Invalid API key'')"
  let ?t = "lit ''hola''"
  let ?w1 = "logReceipt ?d newWorld ?msg ?t"
  have u: "on_messages_upsert ?d newWorld [?msg] = (Resolved, respond ?d ?w1 ?msg ?t)"
    using upsert_passes [of ?msg "\<lparr>conversation = Some ?t, extendedText = None\<rparr>" newWorld ?d "[]"]
    by (simp add: textMessage_fields greeting_evaluated newWorld_fields)
  have g: "generateResponse ?d
             ((System, getPrompt ?d (endsWith (remoteJid ?msg) (lit ''@g.us'')))
               # sessions ?w1 (resolveUserId ?msg, remoteJid ?msg) @ [(User, ?t)])
           = Inl (Error (lit ''Invalid API key''))"
    by (simp add: failing_fields)
  have s: "sendMessage ?d (sent ?w1) (remoteJid ?msg)
             (errorReply (Error (lit ''Invalid API key''))) = Inr (Some (lit ''m1''))"
    by (simp add: failing_fields)
  show ?thesis
    by (simp add: u respond_ai_error [OF g s] logReceipt_fields newWorld_fields
        textMessage_fields errorReply_examples)
qed

text \<open>An answer with the marker at both ends, and what \<^verbatim>\<open>replace\<close> and \<^verbatim>\<open>trim\<close> leave
  of it.\<close>

lemma marker_twice:
  "includes_js (lit ''{{ACTIVAR_SOPORTE}} Te paso con soporte {{ACTIVAR_SOPORTE}}'') marker"
  "trim (replace (lit ''{{ACTIVAR_SOPORTE}} Te paso con soporte {{ACTIVAR_SOPORTE}}'') marker [])
     = lit ''Te paso con soporte {{ACTIVAR_SOPORTE}}''"
  "includes_js (lit ''Te paso con soporte {{ACTIVAR_SOPORTE}}'') marker"
  by (simp_all add: marker_def trim_def isWhiteSpace_def lit_def)

text \<open>
  Claim C4 says that a reply never shows the hand-off marker, also when the AI's answer
  holds it more than once. The code removes the first occurrence only: for the answer
  \<^verbatim>\<open>{{ACTIVAR_SOPORTE}} Te paso con soporte {{ACTIVAR_SOPORTE}}\<close> the reply that is sent
  still holds the marker, while the mode is switched to SUPPORT as claimed.
\<close>

theorem handoff_marker_kept:
  "sent (snd (on_messages_upsert
       (answering (lit ''{{ACTIVAR_SOPORTE}} Te paso con soporte {{ACTIVAR_SOPORTE}}''))
       newWorld [textMessage (lit ''hola'')]))
     = [(lit ''5215512345678@s.whatsapp.net'', lit ''Te paso con soporte {{ACTIVAR_SOPORTE}}'')] \<and>
   includes_js (lit ''Te paso con soporte {{ACTIVAR_SOPORTE}}'') marker \<and>
   modes (snd (on_messages_upsert
       (answering (lit ''{{ACTIVAR_SOPORTE}} Te paso con soporte {{ACTIVAR_SOPORTE}}''))
       newWorld [textMessage (lit ''hola'')])) (lit ''5215512345678'') = Support"
proof -
  let ?r = "lit ''{{ACTIVAR_SOPORTE}} Te paso con soporte {{ACTIVAR_SOPORTE}}''"
  let ?msg = "textMessage (lit ''hola'')"
  let ?d = "answering ?r"
  let ?t = "lit ''hola''"
  let ?w1 = "logReceipt ?d newWorld ?msg ?t"
  have u: "on_messages_upsert ?d newWorld [?msg] = (Resolved, respond ?d ?w1 ?msg ?t)"
    using upsert_passes [of ?msg "\<lparr>conversation = Some ?t, extendedText = None\<rparr>" newWorld ?d "[]"]
    by (simp add: textMessage_fields greeting_evaluated newWorld_fields)
  have g: "generateResponse ?d
             ((System, getPrompt ?d (endsWith (remoteJid ?msg) (lit ''@g.us'')))
               # sessions ?w1 (resolveUserId ?msg, remoteJid ?msg) @ [(User, ?t)]) = Inr ?r"
    by (simp add: answering_fields)
  have s: "sendMessage ?d (sent ?w1) (remoteJid ?msg) (trim (replace ?r marker []))
             = Inr (Some (lit ''m1''))"
    by (simp add: answering_fields)
  show ?thesis
    by (simp add: u respond_handoff [OF g marker_twice(1) s] logReceipt_fields newWorld_fields
        textMessage_fields marker_twice)
qed

section \<open>Further properties\<close>

text \<open>
  The guard of \<^verbatim>\<open>start()\<close>: while \<open>isReconnecting\<close> is set, a call changes nothing,
  however its body would have gone.
\<close>

theorem start_guard: "isReconnecting w \<Longrightarrow> start w r = (Resolved, w)"
  by (simp add: start_def)

text \<open>The guard at a call whose set-up would have thrown.\<close>

theorem start_guard_witness:
  "start (newWorld\<lparr>isReconnecting := True\<rparr>) SetupThrows
     = (Resolved, newWorld\<lparr>isReconnecting := True\<rparr>)"
  using start_guard [of "newWorld\<lparr>isReconnecting := True\<rparr>" SetupThrows] by simp

text \<open>
  A message of the bot's own is absorbed: the handler resolves and nothing is changed, so
  nothing is logged and nothing is sent.
\<close>

theorem self_echo_absorbed:
  "fromMe msg \<Longrightarrow> on_messages_upsert d w (msg # rest) = (Resolved, w)"
  by (simp add: on_messages_upsert_def split: option.split)

text \<open>The absorption at a greeting marked as the bot's own.\<close>

theorem self_echo_absorbed_witness:
  "on_messages_upsert demoDeps newWorld [(textMessage (lit ''hola''))\<lparr>fromMe := True\<rparr>]
     = (Resolved, newWorld)"
  using self_echo_absorbed [of "(textMessage (lit ''hola''))\<lparr>fromMe := True\<rparr>" demoDeps newWorld "[]"]
  by simp

text \<open>
  On the open event the bot is connected, the pairing challenge is cleared, the counter is
  0, the guard is released, the two dependent timers are armed once each, and no reconnect
  is scheduled.
\<close>

theorem open_event:
  assumes "connection u = Some Open"
  shows "connectionStatus (on_connection_update d w u) = Connected \<and>
         currentQR (on_connection_update d w u) = None \<and>
         reconnectAttempts (on_connection_update d w u) = 0 \<and>
         \<not> isReconnecting (on_connection_update d w u) \<and>
         timers (on_connection_update d w u) = timers w \<and>
         cleanupTimers (on_connection_update d w u) = cleanupTimers w + 1 \<and>
         followUpTimers (on_connection_update d w u) = followUpTimers w + 1"
  using assms by (simp add: on_connection_update_def logger_log_def Let_def)

text \<open>The open event after two rejections and a pairing challenge.\<close>

theorem open_event_witness:
  "connectionStatus (on_connection_update demoDeps
       (newWorld\<lparr>reconnectAttempts := 2, currentQR := Some (lit ''2@abc'')\<rparr>)
       \<lparr>connection = Some Open, statusCode = None, qr = None\<rparr>) = Connected \<and>
   reconnectAttempts (on_connection_update demoDeps
       (newWorld\<lparr>reconnectAttempts := 2, currentQR := Some (lit ''2@abc'')\<rparr>)
       \<lparr>connection = Some Open, statusCode = None, qr = None\<rparr>) = 0 \<and>
   currentQR (on_connection_update demoDeps
       (newWorld\<lparr>reconnectAttempts := 2, currentQR := Some (lit ''2@abc'')\<rparr>)
       \<lparr>connection = Some Open, statusCode = None, qr = None\<rparr>) = None"
  using open_event [of "\<lparr>connection = Some Open, statusCode = None, qr = None\<rparr>" demoDeps
      "newWorld\<lparr>reconnectAttempts := 2, currentQR := Some (lit ''2@abc'')\<rparr>"]
  by simp

text \<open>
  A group message that arrives while the AI is disabled for groups: nothing is sent, the
  AI is not called, the modes are untouched, and after the receipt exactly one
  suppression note is logged.
\<close>

theorem group_ai_disabled:
  assumes "message msg = Some content" and "\<not> fromMe msg"
    and "trim (messageText content) \<noteq> []"
    and "endsWith (remoteJid msg) (lit ''@g.us'')"
    and "modes w (resolveUserId msg) = AI"
    and "\<not> groupsAIEnabled w"
  shows "sent (snd (on_messages_upsert d w (msg # rest))) = sent w \<and>
         aiCalls (snd (on_messages_upsert d w (msg # rest))) = aiCalls w \<and>
         modes (snd (on_messages_upsert d w (msg # rest))) = modes w \<and>
         logs (snd (on_messages_upsert d w (msg # rest))) =
           logs w @
           [\<lparr>le_kind = Cliente, le_text = messageText content,
             le_userId = Some (resolveUserId msg), le_userName = Some (resolveGroupName d msg),
             le_isGroup = Some True, le_messageId = None\<rparr>,
            \<lparr>le_kind = SYSTEM,
             le_text = lit ''Mensaje de grupo ignorado - IA en grupos desactivada (''
                         @ resolveGroupName d msg @ lit '')'',
             le_userId = None, le_userName = None, le_isGroup = None, le_messageId = None\<rparr>]"
proof -
  have t: "messageText content \<noteq> []"
    using assms(3) by (auto simp: trim_def)
  show ?thesis
    using assms t
    by (simp add: on_messages_upsert_def Let_def logReceipt_def displayName_def
        collaborator_defs)
qed

text \<open>The group message, evaluated.\<close>

lemma groupMessage_fields:
  "message (groupMessage t) = Some \<lparr>conversation = None, extendedText = Some t\<rparr>"
  "\<not> fromMe (groupMessage t)"
  "remoteJid (groupMessage t) = lit ''120363041234567890@g.us''"
  "resolveUserId (groupMessage t) = lit ''120363041234567890''"
  "endsWith (lit ''120363041234567890@g.us'') (lit ''@g.us'')"
  "messageText \<lparr>conversation = None, extendedText = Some (lit ''hola'')\<rparr> = lit ''hola''"
  by (simp_all add: groupMessage_def resolveUserId_def endsWith_def suffix_to_prefix
      messageText_def orElse_def truthy_def lit_def)

text \<open>The scenario at a greeting in a group.\<close>

theorem group_ai_disabled_witness:
  "sent (snd (on_messages_upsert demoDeps (newWorld\<lparr>groupsAIEnabled := False\<rparr>)
       [groupMessage (lit ''hola'')])) = [] \<and>
   map le_kind (logs (snd (on_messages_upsert demoDeps (newWorld\<lparr>groupsAIEnabled := False\<rparr>)
       [groupMessage (lit ''hola'')]))) = [Cliente, SYSTEM]"
proof -
  have "sent (newWorld\<lparr>groupsAIEnabled := False\<rparr>) = []"
    "logs (newWorld\<lparr>groupsAIEnabled := False\<rparr>) = []"
    "modes (newWorld\<lparr>groupsAIEnabled := False\<rparr>) = (\<lambda>_. AI)"
    by (simp_all add: newWorld_fields)
  then show ?thesis
    using group_ai_disabled [of "groupMessage (lit ''hola'')"
        "\<lparr>conversation = None, extendedText = Some (lit ''hola'')\<rparr>"
        "newWorld\<lparr>groupsAIEnabled := False\<rparr>" demoDeps "[]"]
    by (simp add: groupMessage_fields greeting_evaluated)
qed

text \<open>An answer with the marker once, at its end.\<close>

lemma marker_once:
  "includes_js (lit ''Te paso con soporte {{ACTIVAR_SOPORTE}}'') marker"
  "trim (replace (lit ''Te paso con soporte {{ACTIVAR_SOPORTE}}'') marker [])
     = lit ''Te paso con soporte''"
  "\<not> includes_js (lit ''Te paso con soporte'') marker"
  by (simp_all add: marker_def trim_def isWhiteSpace_def lit_def)

text \<open>
  Parts (a) and (c) of claim C4, and what the reply is: when the AI's answer holds the
  marker and the transport accepts the reply, the identity's mode becomes SUPPORT, the
  reply is the answer with the first marker removed and then trimmed, and among the
  entries logged by the cycle exactly one is a system entry, the one of the mode change.
\<close>

theorem handoff_switches_mode:
  assumes "message msg = Some content" and "\<not> fromMe msg"
    and "trim (messageText content) \<noteq> []"
    and "modes w (resolveUserId msg) = AI"
    and "if endsWith (remoteJid msg) (lit ''@g.us'') then groupsAIEnabled w
         else individualAIEnabled w"
    and "generateResponse d
           ((System, getPrompt d (endsWith (remoteJid msg) (lit ''@g.us'')))
             # sessions w (resolveUserId msg, remoteJid msg) @ [(User, messageText content)])
         = Inr r"
    and "includes_js r marker"
    and "sendMessage d (sent w) (remoteJid msg) (trim (replace r marker [])) = Inr sentId"
  shows "modes (snd (on_messages_upsert d w (msg # rest))) =
           (modes w)(resolveUserId msg := Support) \<and>
         sent (snd (on_messages_upsert d w (msg # rest))) =
           sent w @ [(remoteJid msg, trim (replace r marker []))] \<and>
         filter (\<lambda>e. le_kind e = SYSTEM)
             (drop (length (logs w)) (logs (snd (on_messages_upsert d w (msg # rest))))) =
           [\<lparr>le_kind = SYSTEM,
             le_text = lit ''Modo SOPORTE activado autom'' @ [225] @ lit ''ticamente para ''
                         @ resolveUserId msg,
             le_userId = None, le_userName = None, le_isGroup = None, le_messageId = None\<rparr>]"
proof -
  let ?t = "messageText content"
  let ?w1 = "logReceipt d w msg ?t"
  have u: "on_messages_upsert d w (msg # rest) = (Resolved, respond d ?w1 msg ?t)"
    using assms(1-5) by (rule upsert_passes)
  have g: "generateResponse d
             ((System, getPrompt d (endsWith (remoteJid msg) (lit ''@g.us'')))
               # sessions ?w1 (resolveUserId msg, remoteJid msg) @ [(User, ?t)]) = Inr r"
    using assms(6) by (simp add: logReceipt_fields)
  have s: "sendMessage d (sent ?w1) (remoteJid msg) (trim (replace r marker [])) = Inr sentId"
    using assms(8) by (simp add: logReceipt_fields)
  show ?thesis
    by (simp add: u respond_handoff [OF g assms(7) s] logReceipt_fields)
qed

text \<open>The hand-off at an answer with one marker: the reply shows none.\<close>

theorem handoff_switches_mode_witness:
  "modes (snd (on_messages_upsert (answering (lit ''Te paso con soporte {{ACTIVAR_SOPORTE}}''))
       newWorld [textMessage (lit ''hola'')])) (lit ''5215512345678'') = Support \<and>
   sent (snd (on_messages_upsert (answering (lit ''Te paso con soporte {{ACTIVAR_SOPORTE}}''))
       newWorld [textMessage (lit ''hola'')])) =
     [(lit ''5215512345678@s.whatsapp.net'', lit ''Te paso con soporte'')]"
  using handoff_switches_mode [of "textMessage (lit ''hola'')"
      "\<lparr>conversation = Some (lit ''hola''), extendedText = None\<rparr>" newWorld
      "answering (lit ''Te paso con soporte {{ACTIVAR_SOPORTE}}'')"
      "lit ''Te paso con soporte {{ACTIVAR_SOPORTE}}''" "Some (lit ''m1'')" "[]"]
  by (simp add: textMessage_fields greeting_evaluated newWorld_fields answering_fields
      marker_once)

end
